theory Spec2Isabelle
  imports Complex_Main "HOL-Library.Sublist"
begin

section \<open>Python numbers\<close>

text \<open>
  A Python float is a real number or NaN (no rounding and no infinity); an int is the
  number it denotes. Arithmetic with NaN gives NaN and every comparison with NaN is
  false. The code never divides by zero: each divisor is a non-zero constant or is
  guarded by a truth test or by \<open>> 0\<close>.
\<close>

datatype pyfloat = NaN | Num real

instantiation pyfloat :: "{plus, minus, times, inverse, abs, ord}"
begin

definition plus_pyfloat :: "pyfloat \<Rightarrow> pyfloat \<Rightarrow> pyfloat" where
  "plus_pyfloat a b = (case (a, b) of (Num x, Num y) \<Rightarrow> Num (x + y) | _ \<Rightarrow> NaN)"

definition minus_pyfloat :: "pyfloat \<Rightarrow> pyfloat \<Rightarrow> pyfloat" where
  "minus_pyfloat a b = (case (a, b) of (Num x, Num y) \<Rightarrow> Num (x - y) | _ \<Rightarrow> NaN)"

definition times_pyfloat :: "pyfloat \<Rightarrow> pyfloat \<Rightarrow> pyfloat" where
  "times_pyfloat a b = (case (a, b) of (Num x, Num y) \<Rightarrow> Num (x * y) | _ \<Rightarrow> NaN)"

definition divide_pyfloat :: "pyfloat \<Rightarrow> pyfloat \<Rightarrow> pyfloat" where
  "divide_pyfloat a b = (case (a, b) of (Num x, Num y) \<Rightarrow> Num (x / y) | _ \<Rightarrow> NaN)"

definition inverse_pyfloat :: "pyfloat \<Rightarrow> pyfloat" where
  "inverse_pyfloat a = (case a of Num x \<Rightarrow> Num (inverse x) | NaN \<Rightarrow> NaN)"

definition abs_pyfloat :: "pyfloat \<Rightarrow> pyfloat" where
  "abs_pyfloat a = (case a of Num x \<Rightarrow> Num \<bar>x\<bar> | NaN \<Rightarrow> NaN)"

definition less_eq_pyfloat :: "pyfloat \<Rightarrow> pyfloat \<Rightarrow> bool" where
  "less_eq_pyfloat a b = (case (a, b) of (Num x, Num y) \<Rightarrow> x \<le> y | _ \<Rightarrow> False)"

definition less_pyfloat :: "pyfloat \<Rightarrow> pyfloat \<Rightarrow> bool" where
  "less_pyfloat a b = (case (a, b) of (Num x, Num y) \<Rightarrow> x < y | _ \<Rightarrow> False)"

instance ..

end

text \<open>
  The built-ins \<open>min(a, b)\<close> and \<open>max(a, b)\<close> keep the first argument unless the second
  is strictly smaller, respectively greater; so a NaN in second place is never chosen.
\<close>

definition py_min :: "pyfloat \<Rightarrow> pyfloat \<Rightarrow> pyfloat" where
  "py_min a b = (if b < a then b else a)"

definition py_max :: "pyfloat \<Rightarrow> pyfloat \<Rightarrow> pyfloat" where
  "py_max a b = (if a < b then b else a)"

text \<open>
  \<open>statistics.mean\<close>. It raises on an empty list; the scoring code only calls it on
  lists that hold at least one element.
\<close>

definition mean :: "pyfloat list \<Rightarrow> pyfloat" where
  "mean xs = foldl (+) (Num 0) xs / Num (real (length xs))"

text \<open>
  Python truth value of an optional number: \<open>None\<close> and zero are false, everything else,
  NaN included, is true. \<open>falsy x\<close> is Python's \<open>not x\<close>.
\<close>

definition truthy :: "pyfloat option \<Rightarrow> bool" where
  "truthy x = (case x of None \<Rightarrow> False | Some NaN \<Rightarrow> True | Some (Num v) \<Rightarrow> v \<noteq> 0)"

definition falsy :: "pyfloat option \<Rightarrow> bool" where
  "falsy x = (case x of None \<Rightarrow> True | Some NaN \<Rightarrow> False | Some (Num v) \<Rightarrow> v = 0)"

section \<open>Data model (models/property.py)\<close>

text \<open>
  An attribute of type \<open>Optional[T]\<close> is a \<open>T option\<close>, with \<open>None\<close> for Python's
  \<open>None\<close>. The records come from a data frame row (services/property\_service.py), where
  a missing number is NaN, so every numeric attribute may hold NaN as well. The
  dataclass annotates \<open>price\<close> as \<open>float\<close>, but the scoring code tests it for absence
  (\<open>not property.price\<close>), so it is optional here too.
\<close>

record Property =
  property_id :: int
  price :: "pyfloat option"
  fair_price :: pyfloat
  property_type :: string
  living_area :: pyfloat
  bedrooms :: "pyfloat option"
  bathrooms :: "pyfloat option"
  year_built :: "pyfloat option"
  lot_size :: "pyfloat option"
  latitude :: pyfloat
  longitude :: pyfloat
  zestimate :: "pyfloat option"
  rent_estimate :: "pyfloat option"
  tax_assessed_value :: "pyfloat option"
  tax_rate :: "pyfloat option"
  monthly_hoa :: "pyfloat option"
  address :: string
  city :: string
  state :: string
  zipcode :: string
  county :: "string option"

record InvestmentScore =
  property :: Property
  total_score :: pyfloat
  roi_score :: pyfloat
  location_score :: pyfloat
  condition_score :: pyfloat
  market_score :: pyfloat
  risk_score :: pyfloat

section \<open>Investment scorer (services/scoring\_service.py)\<close>

definition calculate_roi_score :: "Property \<Rightarrow> pyfloat" where
  "calculate_roi_score p =
     (if falsy (rent_estimate p) \<or> falsy (price p) then Num 0
      else
        let annual_rent = the (rent_estimate p) * Num 12;
            operating_expenses = annual_rent * Num 0.4;
            net_roi = ((annual_rent - operating_expenses) / the (price p)) * Num 100
        in py_min (Num 10) net_roi)"

definition calculate_location_score :: "Property \<Rightarrow> pyfloat" where
  "calculate_location_score p = Num 7"

definition calculate_condition_score :: "Property \<Rightarrow> pyfloat" where
  "calculate_condition_score p =
     (if falsy (year_built p) then Num 5
      else
        let age = Num 2024 - the (year_built p);
            age_score = py_max (Num 0) (Num 10 - age / Num 10)
        in if truthy (zestimate p) \<and> truthy (price p) then
             let condition_factor = the (zestimate p) / the (price p);
                 condition_score = Num 10 * py_min (Num 1.2) (py_max (Num 0.8) condition_factor)
             in mean [age_score, condition_score]
           else age_score)"

definition calculate_market_score :: "Property \<Rightarrow> pyfloat" where
  "calculate_market_score p = Num 6"

text \<open>The dictionary literal of the vacancy-risk lookup, keys as the source spells them.\<close>

definition vacancy_risk_table :: "(string \<times> real) list" where
  "vacancy_risk_table =
     [(''Single Family'', 8),
      (''Multi Family'', 7),
      (''Apartment'', 6),
      (''Retail'', 5),
      (''Office'', 4),
      (''Industrial'', 6),
      (''Land'', 3)]"

definition vacancy_risk :: "string \<Rightarrow> real" where
  "vacancy_risk t = (case map_of vacancy_risk_table t of Some v \<Rightarrow> v | None \<Rightarrow> 5)"

definition calculate_risk_score :: "Property \<Rightarrow> pyfloat" where
  "calculate_risk_score p =
     (let risk_factors = [];
          risk_factors =
            (if truthy (zestimate p) \<and> truthy (price p) then
               let price_diff = \<bar>the (zestimate p) - the (price p)\<bar> / the (price p);
                   price_risk = Num 10 - price_diff * Num 100
               in risk_factors @ [price_risk]
             else risk_factors);
          risk_factors = risk_factors @ [Num (vacancy_risk (property_type p))];
          market_risk = Num 6;
          risk_factors = risk_factors @ [market_risk]
      in if risk_factors \<noteq> [] then mean risk_factors else Num 5)"

definition score_property :: "Property \<Rightarrow> InvestmentScore" where
  "score_property p =
     (let roi = calculate_roi_score p;
          location = calculate_location_score p;
          condition = calculate_condition_score p;
          market = calculate_market_score p;
          risk = calculate_risk_score p;
          total =
            (roi * Num 0.35 + location * Num 0.25 + condition * Num 0.15 +
             market * Num 0.15 + risk * Num 0.10) * Num 10
      in \<lparr> property = p, total_score = total, roi_score = roi, location_score = location,
           condition_score = condition, market_score = market, risk_score = risk \<rparr>)"

definition score_properties :: "Property list \<Rightarrow> InvestmentScore list" where
  "score_properties properties = map score_property properties"

section \<open>Errors\<close>

text \<open>
  A raised exception is a value: the three built-in classes this code meets, and any
  other class by its name. A computation that may raise returns \<open>py_error + 'a\<close>, and
  \<open>then_do\<close> runs the next statement unless the previous one raised.
\<close>

datatype py_error = TypeError | KeyError | ValueError | OtherError string

definition then_do :: "py_error + 'a \<Rightarrow> ('a \<Rightarrow> py_error + 'b) \<Rightarrow> py_error + 'b" where
  "then_do r f = (case r of Inl e \<Rightarrow> Inl e | Inr v \<Rightarrow> f v)"

text \<open>An optional number used in arithmetic or in an ordering: \<open>None\<close> raises TypeError.\<close>

definition py_num :: "pyfloat option \<Rightarrow> py_error + pyfloat" where
  "py_num x = (case x of None \<Rightarrow> Inl TypeError | Some v \<Rightarrow> Inr v)"

section \<open>Display score (app.py)\<close>

definition calculate_investment_score :: "Property \<Rightarrow> py_error + pyfloat" where
  "calculate_investment_score p =
     then_do (py_num (price p)) (\<lambda>pr.
     then_do
       (if Num 0 < pr then
          then_do (py_num (rent_estimate p)) (\<lambda>rent.
            let cap_rate = (rent * Num 12) / pr
            in Inr (Num 0 + py_min (cap_rate * Num 40) (Num 4)))
        else Inr (Num 0)) (\<lambda>score.
     then_do
       (if Num 0 < pr then
          then_do (py_num (zestimate p)) (\<lambda>z.
            let appreciation = (z - pr) / pr
            in Inr (score + py_min (appreciation * Num 10) (Num 3)))
        else Inr score) (\<lambda>score.
     let score =
           (if truthy (year_built p) then
              let age_score = py_min ((Num 2023 - the (year_built p)) / Num 100) (Num 1)
              in score + Num 2 * (Num 1 - age_score)
            else score);
         score =
           (if falsy (monthly_hoa p) \<or> the (monthly_hoa p) < Num 200 then score + Num 1
            else score)
     in Inr score)))"


section \<open>Database builder (create\_db.py)\<close>

text \<open>
  A row of the listings table: cell values by column name, \<open>None\<close> for a missing value
  (pandas' NaN). Reading a column the row does not have raises KeyError.
\<close>

type_synonym row = "string \<rightharpoonup> real option"

definition row_get :: "row \<Rightarrow> string \<Rightarrow> py_error + real option" where
  "row_get r k = (case r k of None \<Rightarrow> Inl KeyError | Some v \<Rightarrow> Inr v)"

text \<open>
  The \<open>try\<close> block of \<open>calculate_fair_price\<close>; arithmetic with a missing value gives a
  missing value.
\<close>

definition calculate_fair_price_body :: "row \<Rightarrow> py_error + real option" where
  "calculate_fair_price_body r =
     then_do (row_get r ''price'') (\<lambda>base_price.
     then_do (row_get r ''zestimate'') (\<lambda>z.
       case z of
         Some zv \<Rightarrow> Inr (map_option (\<lambda>b. (b + zv) / 2) base_price)
       | None \<Rightarrow> Inr base_price))"

text \<open>The handler returns \<open>row['price']\<close>, which raises again when there is no such column.\<close>

definition calculate_fair_price :: "row \<Rightarrow> py_error + real option" where
  "calculate_fair_price r =
     (case calculate_fair_price_body r of
        Inl e \<Rightarrow> row_get r ''price''
      | Inr v \<Rightarrow> Inr v)"

text \<open>
  The standardisation of property types: the mapping is applied to the upper-cased name,
  and a name it does not hold becomes SINGLE FAMILY. The argument is the name after
  \<open>str.upper\<close>.
\<close>

definition property_type_mapping :: "(string \<times> string) list" where
  "property_type_mapping =
     [(''SINGLE FAMILY'', ''SINGLE FAMILY''),
      (''SINGLE-FAMILY'', ''SINGLE FAMILY''),
      (''SINGLEFAMILY'', ''SINGLE FAMILY''),
      (''CONDO'', ''CONDO''),
      (''CONDOMINIUM'', ''CONDO''),
      (''TOWNHOUSE'', ''TOWNHOUSE''),
      (''TOWN_HOUSE'', ''TOWNHOUSE''),
      (''TOWNHOME'', ''TOWNHOUSE'')]"

definition standardize_property_type :: "string \<Rightarrow> string" where
  "standardize_property_type upper_name =
     (case map_of property_type_mapping upper_name of
        Some t \<Rightarrow> t
      | None \<Rightarrow> ''SINGLE FAMILY'')"

section \<open>Data frames\<close>

text \<open>
  The frame of a batch of property records: the price column, a float for every record,
  and the other columns by name. A column is numeric (the int and float dtypes that
  \<open>select_dtypes\<close> is asked for), of dtype object holding strings, or of dtype category
  with its categories; a cell is \<open>None\<close> when the value is missing. The frame has one
  row per price.
\<close>

datatype column =
    NumCol "real option list"
  | ObjCol "string option list"
  | CatCol "string list" "string option list"

record dataframe =
  df_price :: "real list"
  df_columns :: "(string \<times> column) list"

type_synonym matrix = "real list list"

definition select_numeric :: "dataframe \<Rightarrow> string list" where
  "select_numeric df =
     map fst (filter (\<lambda>(n, c). case c of NumCol _ \<Rightarrow> True | _ \<Rightarrow> False) (df_columns df))"

definition select_categorical :: "dataframe \<Rightarrow> string list" where
  "select_categorical df =
     map fst (filter (\<lambda>(n, c). case c of NumCol _ \<Rightarrow> False | _ \<Rightarrow> True) (df_columns df))"

definition get_column :: "dataframe \<Rightarrow> string \<Rightarrow> py_error + column" where
  "get_column df col = (case map_of (df_columns df) col of None \<Rightarrow> Inl KeyError | Some c \<Rightarrow> Inr c)"

definition set_column :: "dataframe \<Rightarrow> string \<Rightarrow> column \<Rightarrow> dataframe" where
  "set_column df col c =
     df\<lparr>df_columns := map (\<lambda>(n, old). if n = col then (n, c) else (n, old)) (df_columns df)\<rparr>"

text \<open>\<open>isnull().any()\<close> and the number of cells of a column.\<close>

definition has_null :: "column \<Rightarrow> bool" where
  "has_null c =
     (case c of
        NumCol cells \<Rightarrow> None \<in> set cells
      | ObjCol cells \<Rightarrow> None \<in> set cells
      | CatCol cats cells \<Rightarrow> None \<in> set cells)"

definition column_length :: "column \<Rightarrow> nat" where
  "column_length c =
     (case c of
        NumCol cells \<Rightarrow> length cells
      | ObjCol cells \<Rightarrow> length cells
      | CatCol cats cells \<Rightarrow> length cells)"

section \<open>Dimensionality reducer (pca\_workflow.py)\<close>

text \<open>
  What the code takes from its libraries: the scikit-learn pipeline (standard scaler and
  one-hot encoder, then PCA with 90 components) fitted and applied to a frame, which may
  raise; the text that \<open>astype(str)\<close> gives a cell of a numeric column, by column name;
  and the draws of numpy's normal generator, by position.
\<close>

record library =
  pipeline_fit_transform :: "dataframe \<Rightarrow> string list \<Rightarrow> string list \<Rightarrow> py_error + matrix"
  num_str :: "string \<Rightarrow> real \<Rightarrow> string"
  normal_draw :: "nat \<Rightarrow> real"

text \<open>The mean of the values of a column; a column with no value at all has none.\<close>

definition column_mean :: "real option list \<Rightarrow> real option" where
  "column_mean cells =
     (let present = concat (map (\<lambda>c. case c of None \<Rightarrow> [] | Some v \<Rightarrow> [v]) cells)
      in if present = [] then None else Some (sum_list present / real (length present)))"

definition fillna :: "'a option \<Rightarrow> 'a option list \<Rightarrow> 'a option list" where
  "fillna v cells = map (\<lambda>c. case c of None \<Rightarrow> v | Some x \<Rightarrow> Some x) cells"

text \<open>
  The first statement, \<open>X[numeric_features] = X[numeric_features].fillna(X[numeric_features].mean())\<close>:
  selecting a name that is no column raises KeyError, the mean of a column that is not
  numeric raises TypeError, and then each column is filled with its own mean.
\<close>

definition fill_numeric :: "string list \<Rightarrow> dataframe \<Rightarrow> py_error + dataframe" where
  "fill_numeric numeric_features X =
     (if list_ex (\<lambda>col. map_of (df_columns X) col = None) numeric_features then Inl KeyError
      else if list_ex (\<lambda>col. case map_of (df_columns X) col of
                               Some (NumCol cells) \<Rightarrow> False
                             | _ \<Rightarrow> True) numeric_features
      then Inl TypeError
      else Inr (foldl (\<lambda>X col. case map_of (df_columns X) col of
                                  Some (NumCol cells) \<Rightarrow>
                                    set_column X col (NumCol (fillna (column_mean cells) cells))
                                | _ \<Rightarrow> X) X numeric_features))"

text \<open>
  The loop over the categorical features: \<open>fillna('Unknown')\<close>, then \<open>astype(str)\<close>,
  which leaves a column of strings. On a category column \<open>fillna\<close> raises TypeError
  unless \<open>Unknown\<close> is one of its categories.
\<close>

fun fill_categorical :: "library \<Rightarrow> string list \<Rightarrow> dataframe \<Rightarrow> py_error + dataframe" where
  "fill_categorical lib [] X = Inr X"
| "fill_categorical lib (cat_feature # cols) X =
     (case get_column X cat_feature of
        Inl e \<Rightarrow> Inl e
      | Inr (ObjCol cells) \<Rightarrow>
          fill_categorical lib cols
            (set_column X cat_feature (ObjCol (fillna (Some ''Unknown'') cells)))
      | Inr (CatCol cats cells) \<Rightarrow>
          if ''Unknown'' \<in> set cats then
            fill_categorical lib cols
              (set_column X cat_feature (ObjCol (fillna (Some ''Unknown'') cells)))
          else Inl TypeError
      | Inr (NumCol cells) \<Rightarrow>
          fill_categorical lib cols
            (set_column X cat_feature
               (ObjCol (fillna (Some ''Unknown'')
                  (map (map_option (num_str lib cat_feature)) cells)))))"

definition convert_x_to_pca :: "library \<Rightarrow> dataframe \<Rightarrow> string list \<Rightarrow> string list \<Rightarrow> py_error + matrix" where
  "convert_x_to_pca lib x numeric_features categorical_features =
     then_do (fill_numeric numeric_features x) (\<lambda>X.
     then_do (fill_categorical lib categorical_features X) (\<lambda>X.
     pipeline_fit_transform lib X numeric_features categorical_features))"


section \<open>Fair price predictor (services/prediction\_service.py)\<close>

text \<open>
  The service object: the trained model (\<open>None\<close> when loading failed), as the function
  from the reduced matrix to the flattened predictions, which may raise, and the two
  scikit-learn imputers, each from a column to its filled cells, which may raise too.
\<close>

record PredictionService =
  model :: "(matrix \<Rightarrow> py_error + real list) option"
  numeric_imputer :: "column \<Rightarrow> py_error + real list"
  categorical_imputer :: "column \<Rightarrow> py_error + string list"

text \<open>
  The constructor, given the outcome of loading the model file: any exception while
  loading leaves \<open>model\<close> at \<open>None\<close>.
\<close>

definition PredictionService_init ::
  "py_error + (matrix \<Rightarrow> py_error + real list) \<Rightarrow>
   (column \<Rightarrow> py_error + real list) \<Rightarrow>
   (column \<Rightarrow> py_error + string list) \<Rightarrow> PredictionService" where
  "PredictionService_init loaded num_imputer cat_imputer =
     \<lparr> model = (case loaded of Inl e \<Rightarrow> None | Inr m \<Rightarrow> Some m),
       numeric_imputer = num_imputer,
       categorical_imputer = cat_imputer \<rparr>"

definition columns_to_remove :: "string list" where
  "columns_to_remove = [''price'', ''fair_price'', ''id'']"

definition feature_names :: "string list \<Rightarrow> string list" where
  "feature_names cols =
     filter (\<lambda>col. col \<notin> set columns_to_remove \<and> \<not> prefix ''schools/'' col) cols"

text \<open>
  The imputation loops: a column with a missing cell is replaced by what the imputer
  returns for it, as a numeric column in the first loop and as a column of strings in
  the second. Assigning a column of the wrong length to the frame raises ValueError.
\<close>

fun impute_numeric :: "PredictionService \<Rightarrow> string list \<Rightarrow> dataframe \<Rightarrow> py_error + dataframe" where
  "impute_numeric self [] df = Inr df"
| "impute_numeric self (col # cols) df =
     (case get_column df col of
        Inl e \<Rightarrow> Inl e
      | Inr c \<Rightarrow>
          if has_null c then
            (case numeric_imputer self c of
               Inl e \<Rightarrow> Inl e
             | Inr filled \<Rightarrow>
                 if length filled = column_length c
                 then impute_numeric self cols (set_column df col (NumCol (map Some filled)))
                 else Inl ValueError)
          else impute_numeric self cols df)"

fun impute_categorical :: "PredictionService \<Rightarrow> string list \<Rightarrow> dataframe \<Rightarrow> py_error + dataframe" where
  "impute_categorical self [] df = Inr df"
| "impute_categorical self (col # cols) df =
     (case get_column df col of
        Inl e \<Rightarrow> Inl e
      | Inr c \<Rightarrow>
          if has_null c then
            (case categorical_imputer self c of
               Inl e \<Rightarrow> Inl e
             | Inr filled \<Rightarrow>
                 if length filled = column_length c
                 then impute_categorical self cols (set_column df col (ObjCol (map Some filled)))
                 else Inl ValueError)
          else impute_categorical self cols df)"

text \<open>\<open>np.clip\<close>, element by element: the minimum of the upper bound and the maximum.\<close>

definition np_clip :: "real list \<Rightarrow> real list \<Rightarrow> real list \<Rightarrow> real list" where
  "np_clip a a_min a_max = map (\<lambda>(x, lo, hi). min (max x lo) hi) (zip a (zip a_min a_max))"

definition validate_predictions_body :: "real list \<Rightarrow> real list \<Rightarrow> py_error + real list" where
  "validate_predictions_body predictions actual_prices =
     (if length predictions \<noteq> length actual_prices then Inl ValueError
      else
        let lower_bound = map (\<lambda>a. a * 0.5) actual_prices;
            upper_bound = map (\<lambda>a. a * 1.5) actual_prices
        in Inr (np_clip predictions lower_bound upper_bound))"

text \<open>The handler of the validation returns the predictions it was given.\<close>

definition validate_predictions :: "real list \<Rightarrow> real list \<Rightarrow> real list" where
  "validate_predictions predictions actual_prices =
     (case validate_predictions_body predictions actual_prices of
        Inl e \<Rightarrow> predictions
      | Inr validated \<Rightarrow> validated)"

text \<open>The \<open>try\<close> block of \<open>predict_fair_price\<close>.\<close>

definition predict_fair_price_body ::
  "library \<Rightarrow> PredictionService \<Rightarrow> dataframe \<Rightarrow> py_error + real list" where
  "predict_fair_price_body lib self properties_df =
     (case model self of
        None \<Rightarrow> Inr (df_price properties_df)
      | Some m \<Rightarrow>
          let df = properties_df;
              numeric_features = feature_names (select_numeric df);
              categorical_features = feature_names (select_categorical df)
          in
          then_do (impute_numeric self numeric_features df) (\<lambda>df.
          then_do (impute_categorical self categorical_features df) (\<lambda>df.
          then_do (convert_x_to_pca lib df numeric_features categorical_features) (\<lambda>X_pca.
          then_do (m X_pca) (\<lambda>predictions.
            if length predictions \<noteq> length (df_price df) then Inl ValueError
            else
              let predictions = map (\<lambda>x. max x 0) predictions;
                  noise = map (normal_draw lib) [0..<length predictions];
                  predictions = map (\<lambda>(x, n). x * n) (zip predictions noise);
                  actual_prices = df_price properties_df
              in Inr (validate_predictions predictions actual_prices))))))"

text \<open>The handler returns the price column.\<close>

definition predict_fair_price ::
  "library \<Rightarrow> PredictionService \<Rightarrow> dataframe \<Rightarrow> py_error + real list" where
  "predict_fair_price lib self properties_df =
     (case predict_fair_price_body lib self properties_df of
        Inl e \<Rightarrow> Inr (df_price properties_df)
      | Inr predictions \<Rightarrow> Inr predictions)"


section \<open>The condition score as the specification words it\<close>

text \<open>
  The specification's condition score for a given current year. A value is missing
  when it is \<open>None\<close> or NaN. The default applies when \<open>year_built\<close> is missing, the
  blend when \<open>zestimate\<close> and \<open>price\<close> are both present.
\<close>

definition condition_score_as_specified :: "real \<Rightarrow> Property \<Rightarrow> real" where
  "condition_score_as_specified current_year p =
     (case year_built p of
        Some (Num y) \<Rightarrow>
          let age = current_year - y;
              age_score = max 0 (10 - age / 10)
          in (case (zestimate p, price p) of
                (Some (Num z), Some (Num pr)) \<Rightarrow>
                  (age_score + 10 * min 1.2 (max 0.8 (z / pr))) / 2
              | _ \<Rightarrow> age_score)
      | _ \<Rightarrow> 5)"

section \<open>Sample inputs\<close>

text \<open>A record with every optional attribute absent, and the records the examples use.\<close>

definition blank_property :: Property where
  "blank_property =
     \<lparr> property_id = 1, price = None, fair_price = Num 0, property_type = ''UNKNOWN'',
       living_area = Num 0, bedrooms = None, bathrooms = None, year_built = None,
       lot_size = None, latitude = Num 0, longitude = Num 0, zestimate = None,
       rent_estimate = None, tax_assessed_value = None, tax_rate = None,
       monthly_hoa = None, address = ''Address Not Available'',
       city = ''City Not Available'', state = ''NA'', zipcode = ''00000'',
       county = None \<rparr>"

definition scenario_property :: Property where
  "scenario_property =
     blank_property\<lparr> price := Some (Num 500000), zestimate := Some (Num 520000),
       rent_estimate := Some (Num 2500), year_built := Some (Num 2000),
       property_type := ''SINGLE FAMILY'' \<rparr>"

definition single_family_property :: Property where
  "single_family_property =
     blank_property\<lparr> price := Some (Num 100), zestimate := Some (Num 122),
       property_type := ''Single Family'' \<rparr>"

text \<open>
  Records as the loader builds them from a row with a missing \<open>rentZestimate\<close> and a
  missing \<open>yearBuilt\<close>: the missing number is NaN.
\<close>

definition nan_rent_property :: Property where
  "nan_rent_property = blank_property\<lparr> price := Some (Num 100), rent_estimate := Some NaN \<rparr>"

definition nan_year_property :: Property where
  "nan_year_property = blank_property\<lparr> year_built := Some NaN \<rparr>"

text \<open>
  The width of a frame after encoding: one column per numeric feature and one per
  distinct value of each categorical feature.
\<close>

definition encoded_width :: "dataframe \<Rightarrow> string list \<Rightarrow> string list \<Rightarrow> nat" where
  "encoded_width X numeric_features categorical_features =
     length numeric_features +
     sum_list (map (\<lambda>c. case map_of (df_columns X) c of
                          Some (ObjCol cells) \<Rightarrow> length (remdups cells)
                        | Some (CatCol cats cells) \<Rightarrow> length (remdups cells)
                        | _ \<Rightarrow> 0) categorical_features)"

text \<open>
  A library with scikit-learn's shape check: PCA rejects a number of components above
  the smaller of the number of rows and the encoded width with a ValueError. The
  projection itself is a placeholder of the right shape.
\<close>

definition checking_library :: library where
  "checking_library =
     \<lparr> pipeline_fit_transform =
         (\<lambda>X numeric_features categorical_features.
            if 90 \<le> min (length (df_price X)) (encoded_width X numeric_features categorical_features)
            then Inr (map (\<lambda>p. replicate 90 0) (df_price X))
            else Inl ValueError),
       num_str = (\<lambda>col v. ''0''),
       normal_draw = (\<lambda>i. 1) \<rparr>"

text \<open>A library whose pipeline accepts every frame, and whose draws are all 1.05.\<close>

definition accepting_library :: library where
  "accepting_library =
     \<lparr> pipeline_fit_transform =
         (\<lambda>X numeric_features categorical_features. Inr (map (\<lambda>p. replicate 90 0) (df_price X))),
       num_str = (\<lambda>col v. ''0''),
       normal_draw = (\<lambda>i. 1.05) \<rparr>"

definition sample_frame :: dataframe where
  "sample_frame =
     \<lparr> df_price = [300000, 450000],
       df_columns =
         [(''livingArea'', NumCol [Some 1200, None]),
          (''city'', ObjCol [Some ''Irvine'', None]),
          (''id'', NumCol [Some 1, Some 2])] \<rparr>"

text \<open>A frame with a category column that has no missing cell and no category Unknown.\<close>

definition category_frame :: dataframe where
  "category_frame =
     \<lparr> df_price = [300000, 450000],
       df_columns =
         [(''livingArea'', NumCol [Some 1200, Some 900]),
          (''homeType'', CatCol [''CONDO'', ''TOWNHOUSE''] [Some ''CONDO'', Some ''TOWNHOUSE''])] \<rparr>"

text \<open>
  A service whose model predicts one million for every row, with imputers that fill
  with a constant, and a service whose model failed to load.
\<close>

definition sample_service :: PredictionService where
  "sample_service =
     PredictionService_init (Inr (\<lambda>X. Inr (map (\<lambda>r. 1000000) X)))
       (\<lambda>c. case c of
               NumCol cells \<Rightarrow> Inr (map (\<lambda>v. case v of None \<Rightarrow> 1200 | Some x \<Rightarrow> x) cells)
             | _ \<Rightarrow> Inl ValueError)
       (\<lambda>c. case c of
               NumCol cells \<Rightarrow> Inl ValueError
             | ObjCol cells \<Rightarrow>
                 Inr (map (\<lambda>v. case v of None \<Rightarrow> ''UNKNOWN'' | Some x \<Rightarrow> x) cells)
             | CatCol cats cells \<Rightarrow>
                 Inr (map (\<lambda>v. case v of None \<Rightarrow> ''UNKNOWN'' | Some x \<Rightarrow> x) cells))"

definition unloaded_service :: PredictionService where
  "unloaded_service =
     PredictionService_init (Inl (OtherError ''FileNotFoundError''))
       (\<lambda>c. case c of
               NumCol cells \<Rightarrow> Inr (map (\<lambda>v. case v of None \<Rightarrow> 1200 | Some x \<Rightarrow> x) cells)
             | _ \<Rightarrow> Inl ValueError)
       (\<lambda>c. case c of
               NumCol cells \<Rightarrow> Inl ValueError
             | ObjCol cells \<Rightarrow>
                 Inr (map (\<lambda>v. case v of None \<Rightarrow> ''UNKNOWN'' | Some x \<Rightarrow> x) cells)
             | CatCol cats cells \<Rightarrow>
                 Inr (map (\<lambda>v. case v of None \<Rightarrow> ''UNKNOWN'' | Some x \<Rightarrow> x) cells))"

definition sample_row :: row where
  "sample_row = [''price'' \<mapsto> Some 100, ''zestimate'' \<mapsto> Some 1000]"

section \<open>Properties of the scorer\<close>

lemma pyfloat_arith [simp]:
  "Num x + Num y = Num (x + y)" "NaN + b = NaN" "a + NaN = NaN"
  "Num x - Num y = Num (x - y)" "NaN - b = NaN" "a - NaN = NaN"
  "Num x * Num y = Num (x * y)" "NaN * b = NaN" "a * NaN = NaN"
  "Num x / Num y = Num (x / y)" "NaN / b = NaN" "a / NaN = NaN"
  "\<bar>Num x\<bar> = Num \<bar>x\<bar>" "\<bar>NaN\<bar> = NaN"
  by (simp_all add: plus_pyfloat_def minus_pyfloat_def times_pyfloat_def divide_pyfloat_def
      abs_pyfloat_def split: pyfloat.splits)

lemma pyfloat_less [simp]:
  "Num x < Num y \<longleftrightarrow> x < y" "\<not> NaN < b" "\<not> a < NaN"
  "Num x \<le> Num y \<longleftrightarrow> x \<le> y" "\<not> NaN \<le> b" "\<not> a \<le> NaN"
  by (simp_all add: less_pyfloat_def less_eq_pyfloat_def split: pyfloat.splits)

lemma py_min_simps [simp]:
  "py_min (Num x) (Num y) = Num (min x y)" "py_min a NaN = a" "py_min NaN b = NaN"
  by (auto simp: py_min_def min_def)

lemma py_max_simps [simp]:
  "py_max (Num x) (Num y) = Num (max x y)" "py_max a NaN = a" "py_max NaN b = NaN"
  by (auto simp: py_max_def max_def)

lemma mean_two [simp]: "mean [Num a, Num b] = Num ((a + b) / 2)"
  by (simp add: mean_def)

lemma mean_three [simp]: "mean [Num a, Num b, Num c] = Num ((a + b + c) / 3)"
  by (simp add: mean_def)

lemma vacancy_risk_cases: "vacancy_risk t \<in> {3, 4, 5, 6, 7, 8}"
  by (simp add: vacancy_risk_def vacancy_risk_table_def)

lemma vacancy_risk_bounds: "3 \<le> vacancy_risk t \<and> vacancy_risk t \<le> 8"
  using vacancy_risk_cases [of t] by auto

text \<open>
  C5. For a record whose rent estimate is NaN, as the loader delivers a missing one,
  and whose price is 100, the ROI score is 10 and not 0. For every record the score is
  0 when the rent estimate or the price is \<open>None\<close> or zero, 10 when neither is but one of
  them is NaN, and otherwise the smaller of 10 and
  \<open>((rent_estimate * 12) * 0.6 / price) * 100\<close>.
\<close>
theorem roi_score_cases:
  "rent_estimate nan_rent_property = Some NaN \<and>
   price nan_rent_property = Some (Num 100) \<and>
   calculate_roi_score nan_rent_property = Num 10 \<and>
   calculate_roi_score p =
     (case rent_estimate p of
        None \<Rightarrow> Num 0
      | Some NaN \<Rightarrow>
          (case price p of
             None \<Rightarrow> Num 0
           | Some NaN \<Rightarrow> Num 10
           | Some (Num pr) \<Rightarrow> if pr = 0 then Num 0 else Num 10)
      | Some (Num r) \<Rightarrow>
          if r = 0 then Num 0
          else
            (case price p of
               None \<Rightarrow> Num 0
             | Some NaN \<Rightarrow> Num 10
             | Some (Num pr) \<Rightarrow>
                 if pr = 0 then Num 0 else Num (min 10 (((r * 12) * 0.6 / pr) * 100))))"
  by (auto simp: calculate_roi_score_def falsy_def Let_def nan_rent_property_def
      blank_property_def split: option.splits pyfloat.splits)

text \<open>
  What the condition score is on every record, and where it agrees with the
  specification: in 2024, on records whose values are \<open>None\<close> or non-zero numbers.
\<close>

lemma condition_score_cases:
  "calculate_condition_score p =
     (case year_built p of
        None \<Rightarrow> Num 5
      | Some yb \<Rightarrow>
          if yb = Num 0 then Num 5
          else
            let age_score = (case yb of Num y \<Rightarrow> max 0 (10 - (2024 - y) / 10) | NaN \<Rightarrow> 0);
                clipped = (case (zestimate p, price p) of
                             (Some (Num z), Some (Num pr)) \<Rightarrow> min 1.2 (max 0.8 (z / pr))
                           | _ \<Rightarrow> 0.8)
            in if truthy (zestimate p) \<and> truthy (price p)
               then Num ((age_score + 10 * clipped) / 2)
               else Num age_score)"
  by (auto simp: calculate_condition_score_def falsy_def truthy_def Let_def
      split: option.splits pyfloat.splits)

lemma condition_score_agrees:
  assumes "year_built p = None \<or> (\<exists>y. year_built p = Some (Num y) \<and> y \<noteq> 0)"
    and "zestimate p = None \<or> (\<exists>z. zestimate p = Some (Num z) \<and> z \<noteq> 0)"
    and "price p = None \<or> (\<exists>pr. price p = Some (Num pr) \<and> pr \<noteq> 0)"
  shows "calculate_condition_score p = Num (condition_score_as_specified 2024 p)"
  using assms
  by (auto simp: calculate_condition_score_def condition_score_as_specified_def falsy_def
      truthy_def Let_def)

text \<open>
  C6. For a record whose year built is NaN, as the loader delivers a missing one, the
  condition score is 0, or 5.2 with a zestimate of 520000 on a price of 500000, where the
  specification gives 5 for a missing year. The age is counted from the year 2024
  whatever the current year is: a house of 2014 scores 9, where the specification gives
  8.8 in 2026.
\<close>
theorem condition_score_nan_year:
  "year_built nan_year_property = Some NaN \<and>
   calculate_condition_score nan_year_property = Num 0 \<and>
   condition_score_as_specified current_year nan_year_property = 5 \<and>
   calculate_condition_score
     (nan_year_property\<lparr>zestimate := Some (Num 520000), price := Some (Num 500000)\<rparr>) = Num 5.2 \<and>
   condition_score_as_specified current_year
     (nan_year_property\<lparr>zestimate := Some (Num 520000), price := Some (Num 500000)\<rparr>) = 5 \<and>
   calculate_condition_score (blank_property\<lparr>year_built := Some (Num 2014)\<rparr>) = Num 9 \<and>
   condition_score_as_specified 2026 (blank_property\<lparr>year_built := Some (Num 2014)\<rparr>) = 8.8"
  by (simp add: calculate_condition_score_def condition_score_as_specified_def
      nan_year_property_def blank_property_def falsy_def truthy_def)

text \<open>
  C7. For a record of property type Land with no zestimate, the risk score is exactly
  4.5, the mean of the vacancy risk 3 and the market risk 6.
\<close>
theorem land_risk_score:
  "property_type p = ''Land'' \<Longrightarrow> zestimate p = None \<Longrightarrow> calculate_risk_score p = Num 4.5"
  by (simp add: calculate_risk_score_def truthy_def vacancy_risk_def vacancy_risk_table_def mean_def)

theorem land_risk_score_witness:
  "property_type (blank_property\<lparr>property_type := ''Land''\<rparr>) = ''Land'' \<and>
   zestimate (blank_property\<lparr>property_type := ''Land''\<rparr>) = None \<and>
   calculate_risk_score (blank_property\<lparr>property_type := ''Land''\<rparr>) = Num 4.5"
  using land_risk_score [of "blank_property\<lparr>property_type := ''Land''\<rparr>"]
  by (simp add: blank_property_def)

text \<open>
  C2. On the scenario record (price 500000, zestimate 520000, rent estimate 2500, built
  in 2000, type SINGLE FAMILY) the code gives ROI 3.6, condition 9, location 7 and
  market 6, but the vacancy lookup misses the upper-case type and takes the default 5,
  so the risk score is \<open>17 / 3\<close> (about 5.67) and the total \<open>874 / 15\<close> (about 58.27).
\<close>
theorem scenario_scores:
  "roi_score (score_property scenario_property) = Num 3.6 \<and>
   condition_score (score_property scenario_property) = Num 9 \<and>
   location_score (score_property scenario_property) = Num 7 \<and>
   market_score (score_property scenario_property) = Num 6 \<and>
   risk_score (score_property scenario_property) = Num (17 / 3) \<and>
   total_score (score_property scenario_property) = Num (874 / 15) \<and>
   vacancy_risk (property_type scenario_property) = 5"
  by (simp add: score_property_def scenario_property_def blank_property_def
      calculate_roi_score_def calculate_condition_score_def calculate_risk_score_def
      calculate_location_score_def calculate_market_score_def
      vacancy_risk_def vacancy_risk_table_def falsy_def truthy_def Let_def)

lemma risk_score_three:
  assumes "zestimate p = Some (Num z)" "price p = Some (Num pr)" "z \<noteq> 0" "pr \<noteq> 0"
  shows "calculate_risk_score p =
           Num ((10 - \<bar>z - pr\<bar> / pr * 100 + vacancy_risk (property_type p) + 6) / 3)"
  using assms by (simp add: calculate_risk_score_def truthy_def)

lemma negative_total_example:
  "risk_score (score_property
      (blank_property\<lparr>price := Some (Num 100), zestimate := Some (Num 300)\<rparr>)) = Num (- 179 / 3) \<and>
   total_score (score_property
      (blank_property\<lparr>price := Some (Num 100), zestimate := Some (Num 300)\<rparr>)) = Num (- 77 / 3)"
  by (simp add: score_property_def blank_property_def
      calculate_roi_score_def calculate_condition_score_def calculate_risk_score_def
      calculate_location_score_def calculate_market_score_def
      vacancy_risk_def vacancy_risk_table_def falsy_def truthy_def Let_def)

text \<open>
  C9, as the code has it. With \<open>zestimate\<close> and \<open>price\<close> present and not zero, the risk
  score is negative exactly when \<open>100 * |zestimate - price| / price\<close> exceeds 16 plus the
  vacancy risk of the property type: always above a relative difference of 0.24, and
  above 0.21 when the vacancy risk is at most 5 (the default of an unmapped type). Some
  record has a negative risk score and a negative total score.
\<close>
theorem risk_score_negative:
  assumes "zestimate p = Some (Num z)" "price p = Some (Num pr)" "z \<noteq> 0" "pr \<noteq> 0"
  shows "(calculate_risk_score p < Num 0 \<longleftrightarrow>
            16 + vacancy_risk (property_type p) < 100 * (\<bar>z - pr\<bar> / pr)) \<and>
         (0.24 < \<bar>z - pr\<bar> / pr \<longrightarrow> calculate_risk_score p < Num 0) \<and>
         (vacancy_risk (property_type p) \<le> 5 \<longrightarrow> 0.21 < \<bar>z - pr\<bar> / pr \<longrightarrow>
            calculate_risk_score p < Num 0) \<and>
         (\<exists>q. risk_score (score_property q) < Num 0 \<and> total_score (score_property q) < Num 0)"
proof -
  define d where "d = \<bar>z - pr\<bar> / pr"
  have eq: "calculate_risk_score p = Num ((10 - d * 100 + vacancy_risk (property_type p) + 6) / 3)"
    unfolding d_def using assms by (rule risk_score_three)
  have v: "vacancy_risk (property_type p) \<le> 8"
    using vacancy_risk_bounds by blast
  have a: "calculate_risk_score p < Num 0 \<longleftrightarrow> 16 + vacancy_risk (property_type p) < 100 * d"
    unfolding eq by auto
  have b: "0.24 < d \<longrightarrow> calculate_risk_score p < Num 0"
    unfolding a using v by auto
  have c: "vacancy_risk (property_type p) \<le> 5 \<longrightarrow> 0.21 < d \<longrightarrow> calculate_risk_score p < Num 0"
    unfolding a by auto
  have e: "\<exists>q. risk_score (score_property q) < Num 0 \<and> total_score (score_property q) < Num 0"
    using negative_total_example
    by (intro exI [of _ "blank_property\<lparr>price := Some (Num 100), zestimate := Some (Num 300)\<rparr>"])
       simp
  from a b c e show ?thesis unfolding d_def by blast
qed

theorem risk_score_negative_witness:
  "zestimate (blank_property\<lparr>price := Some (Num 100), zestimate := Some (Num 200)\<rparr>) =
     Some (Num 200) \<and>
   price (blank_property\<lparr>price := Some (Num 100), zestimate := Some (Num 200)\<rparr>) =
     Some (Num 100) \<and>
   (0.21::real) < \<bar>200 - 100\<bar> / 100 \<and>
   vacancy_risk
     (property_type (blank_property\<lparr>price := Some (Num 100), zestimate := Some (Num 200)\<rparr>)) = 5 \<and>
   calculate_risk_score (blank_property\<lparr>price := Some (Num 100), zestimate := Some (Num 200)\<rparr>) <
     Num 0"
  using risk_score_negative
    [of "blank_property\<lparr>price := Some (Num 100), zestimate := Some (Num 200)\<rparr>" 200 100]
  by (simp add: blank_property_def vacancy_risk_def vacancy_risk_table_def)

text \<open>
  C9 as stated fails for a mapped type with a higher vacancy risk: a Single Family
  record with a relative difference of 0.22 has the risk score \<open>2 / 3\<close>.
\<close>
theorem risk_score_threshold_counterexample:
  "zestimate single_family_property = Some (Num 122) \<and>
   price single_family_property = Some (Num 100) \<and>
   (0.21::real) < \<bar>122 - 100\<bar> / 100 \<and>
   calculate_risk_score single_family_property = Num (2 / 3) \<and>
   \<not> calculate_risk_score single_family_property < Num 0"
  by (simp add: single_family_property_def blank_property_def calculate_risk_score_def truthy_def
      vacancy_risk_def vacancy_risk_table_def)

lemma score_property_inputs:
  assumes "price q = price p" "zestimate q = zestimate p" "rent_estimate q = rent_estimate p"
    "year_built q = year_built p" "property_type q = property_type p"
  shows "score_property q = (score_property p)\<lparr>property := q\<rparr>"
  by (simp add: score_property_def calculate_roi_score_def calculate_condition_score_def
      calculate_risk_score_def calculate_location_score_def calculate_market_score_def
      Let_def assms)

text \<open>
  C8. Scoring a batch gives one score per record, in order, the score of record \<open>i\<close>
  being that of \<open>score_property\<close> on it; and two batches whose records agree on price,
  zestimate, rent estimate, year built and property type get the same sub-scores and
  total scores.
\<close>
theorem score_properties_pointwise:
  "length (score_properties ps) = length ps \<and>
   (\<forall>i < length ps. score_properties ps ! i = score_property (ps ! i)) \<and>
   (\<forall>qs. list_all2
           (\<lambda>p q. price q = price p \<and> zestimate q = zestimate p \<and>
                  rent_estimate q = rent_estimate p \<and> year_built q = year_built p \<and>
                  property_type q = property_type p) ps qs \<longrightarrow>
         list_all2
           (\<lambda>s t. total_score t = total_score s \<and> roi_score t = roi_score s \<and>
                  location_score t = location_score s \<and>
                  condition_score t = condition_score s \<and>
                  market_score t = market_score s \<and> risk_score t = risk_score s)
           (score_properties ps) (score_properties qs))"
proof (intro conjI allI impI)
  show "length (score_properties ps) = length ps"
    by (simp add: score_properties_def)
next
  fix i assume "i < length ps"
  then show "score_properties ps ! i = score_property (ps ! i)"
    by (simp add: score_properties_def)
next
  fix qs :: "Property list"
  assume "list_all2
           (\<lambda>p q. price q = price p \<and> zestimate q = zestimate p \<and>
                  rent_estimate q = rent_estimate p \<and> year_built q = year_built p \<and>
                  property_type q = property_type p) ps qs"
  then show "list_all2
           (\<lambda>s t. total_score t = total_score s \<and> roi_score t = roi_score s \<and>
                  location_score t = location_score s \<and>
                  condition_score t = condition_score s \<and>
                  market_score t = market_score s \<and> risk_score t = risk_score s)
           (score_properties ps) (score_properties qs)"
    unfolding score_properties_def list_all2_map1 list_all2_map2
  proof (rule list_all2_mono)
    fix p q :: Property
    assume "price q = price p \<and> zestimate q = zestimate p \<and>
            rent_estimate q = rent_estimate p \<and> year_built q = year_built p \<and>
            property_type q = property_type p"
    then have "score_property q = (score_property p)\<lparr>property := q\<rparr>"
      by (intro score_property_inputs) simp_all
    then show "total_score (score_property q) = total_score (score_property p) \<and>
          roi_score (score_property q) = roi_score (score_property p) \<and>
          location_score (score_property q) = location_score (score_property p) \<and>
          condition_score (score_property q) = condition_score (score_property p) \<and>
          market_score (score_property q) = market_score (score_property p) \<and>
          risk_score (score_property q) = risk_score (score_property p)"
      by simp
  qed
qed

theorem score_properties_pointwise_witness:
  "length (score_properties [scenario_property, single_family_property]) = 2 \<and>
   score_properties [scenario_property, single_family_property] ! 1 = score_property single_family_property \<and>
   list_all2
     (\<lambda>s t. total_score t = total_score s \<and> roi_score t = roi_score s \<and>
            location_score t = location_score s \<and>
            condition_score t = condition_score s \<and>
            market_score t = market_score s \<and> risk_score t = risk_score s)
     (score_properties [scenario_property, single_family_property])
     (score_properties [scenario_property\<lparr>property_id := 7\<rparr>, single_family_property\<lparr>city := ''Irvine''\<rparr>])"
  using score_properties_pointwise [of "[scenario_property, single_family_property]"]
  by (simp add: nth_Cons')

text \<open>
  C10. On a record with a positive price and a missing rent estimate or zestimate the
  display score raises TypeError; with a price present, it returns a score exactly when
  a positive price comes with both of them present.
\<close>
theorem investment_score_partial:
  assumes "price p = Some pr"
  shows "(Num 0 < pr \<and> (rent_estimate p = None \<or> zestimate p = None) \<longrightarrow>
            calculate_investment_score p = Inl TypeError) \<and>
         ((\<exists>s. calculate_investment_score p = Inr s) \<longleftrightarrow>
            (Num 0 < pr \<longrightarrow> rent_estimate p \<noteq> None \<and> zestimate p \<noteq> None))"
  using assms
  by (auto simp: calculate_investment_score_def then_do_def py_num_def Let_def
      split: option.splits)

theorem investment_score_partial_witness:
  "price (blank_property\<lparr>price := Some (Num 100), zestimate := Some (Num 120)\<rparr>) =
     Some (Num 100) \<and>
   Num 0 < Num 100 \<and>
   rent_estimate (blank_property\<lparr>price := Some (Num 100), zestimate := Some (Num 120)\<rparr>) = None \<and>
   calculate_investment_score
     (blank_property\<lparr>price := Some (Num 100), zestimate := Some (Num 120)\<rparr>) = Inl TypeError \<and>
   (\<exists>s. calculate_investment_score
          (blank_property\<lparr>price := Some (Num 100), zestimate := Some (Num 120),
             rent_estimate := Some (Num 1)\<rparr>) = Inr s)"
  using investment_score_partial
    [of "blank_property\<lparr>price := Some (Num 100), zestimate := Some (Num 120)\<rparr>" "Num 100"]
    investment_score_partial
    [of "blank_property\<lparr>price := Some (Num 100), zestimate := Some (Num 120),
           rent_estimate := Some (Num 1)\<rparr>" "Num 100"]
  by (simp add: blank_property_def)

lemma standardized_type_misses_table: "vacancy_risk (standardize_property_type t) = 5"
  by (simp add: standardize_property_type_def property_type_mapping_def vacancy_risk_def
      vacancy_risk_table_def split: option.splits if_splits)


section \<open>Properties of the predictor and the reducer\<close>

lemma set_column_price: "df_price (set_column df col c) = df_price df"
  by (simp add: set_column_def)

lemma impute_numeric_price:
  "impute_numeric self cols df = Inr d \<Longrightarrow> df_price d = df_price df"
proof (induction cols arbitrary: df)
  case Nil
  then show ?case by simp
next
  case (Cons col cols)
  then show ?case
    by (auto simp: set_column_price split: sum.splits if_splits)
qed

lemma impute_categorical_price:
  "impute_categorical self cols df = Inr d \<Longrightarrow> df_price d = df_price df"
proof (induction cols arbitrary: df)
  case Nil
  then show ?case by simp
next
  case (Cons col cols)
  then show ?case
    by (auto simp: set_column_price split: sum.splits if_splits)
qed

lemma fill_numeric_error:
  "fill_numeric cols X = Inl e \<Longrightarrow> e = KeyError \<or> e = TypeError"
  by (auto simp: fill_numeric_def split: if_splits)

lemma fill_categorical_error:
  "fill_categorical lib cols X = Inl e \<Longrightarrow> e = KeyError \<or> e = TypeError"
proof (induction cols arbitrary: X)
  case Nil
  then show ?case by simp
next
  case (Cons col cols)
  then show ?case
    by (auto simp: get_column_def split: sum.splits column.splits option.splits if_splits)
qed

lemma length_np_clip:
  "length a_min = length a \<Longrightarrow> length a_max = length a \<Longrightarrow> length (np_clip a a_min a_max) = length a"
  by (simp add: np_clip_def)

lemma nth_np_clip:
  "length a_min = length a \<Longrightarrow> length a_max = length a \<Longrightarrow> i < length a \<Longrightarrow>
   np_clip a a_min a_max ! i = min (max (a ! i) (a_min ! i)) (a_max ! i)"
  by (simp add: np_clip_def)

lemma validate_predictions_clip:
  "length predictions = length actual_prices \<Longrightarrow>
   validate_predictions predictions actual_prices =
     np_clip predictions (map (\<lambda>a. a * 0.5) actual_prices) (map (\<lambda>a. a * 1.5) actual_prices)"
  by (simp add: validate_predictions_def validate_predictions_body_def)

lemma length_validate_predictions:
  "length (validate_predictions predictions actual_prices) = length predictions"
  by (simp add: validate_predictions_def validate_predictions_body_def length_np_clip)

lemma nth_validate_predictions:
  assumes "length predictions = length actual_prices" "i < length actual_prices"
  shows "validate_predictions predictions actual_prices ! i =
           min (max (predictions ! i) (actual_prices ! i * 0.5)) (actual_prices ! i * 1.5)"
  using assms by (simp add: validate_predictions_clip nth_np_clip)

lemma validate_predictions_bounds:
  assumes "length predictions = length actual_prices" "i < length actual_prices"
    "0 \<le> actual_prices ! i"
  shows "0.5 * actual_prices ! i \<le> validate_predictions predictions actual_prices ! i \<and>
         validate_predictions predictions actual_prices ! i \<le> 1.5 * actual_prices ! i"
  using assms by (simp add: nth_validate_predictions min_def max_def)

lemma predict_fair_price_body_result:
  assumes "predict_fair_price_body lib self df = Inr fair"
  shows "(model self = None \<and> fair = df_price df) \<or>
         (\<exists>jittered. length jittered = length (df_price df) \<and>
            fair = validate_predictions jittered (df_price df))"
proof (cases "model self")
  case None
  with assms show ?thesis by (simp add: predict_fair_price_body_def)
next
  case (Some m)
  from assms Some obtain d1 d2 X predictions where
    d1: "impute_numeric self (feature_names (select_numeric df)) df = Inr d1" and
    d2: "impute_categorical self (feature_names (select_categorical df)) d1 = Inr d2" and
    len: "length predictions = length (df_price d2)" and
    fair: "fair = validate_predictions
             (map (\<lambda>(x, n). x * n)
                (zip (map (\<lambda>x. max x 0) predictions)
                   (map (normal_draw lib) [0..<length (map (\<lambda>x. max x 0) predictions)])))
             (df_price df)"
    by (auto simp: predict_fair_price_body_def then_do_def Let_def split: sum.splits if_splits)
  have "df_price d2 = df_price df"
    using impute_numeric_price [OF d1] impute_categorical_price [OF d2] by simp
  with len have "length (map (\<lambda>(x, n). x * n)
                (zip (map (\<lambda>x. max x 0) predictions)
                   (map (normal_draw lib) [0..<length (map (\<lambda>x. max x 0) predictions)]))) =
              length (df_price df)"
    by simp
  with fair show ?thesis by blast
qed

lemma predict_fair_price_result:
  assumes "predict_fair_price lib self df = Inr fair"
  shows "fair = df_price df \<or>
         (\<exists>jittered. length jittered = length (df_price df) \<and>
            fair = validate_predictions jittered (df_price df))"
proof (cases "predict_fair_price_body lib self df")
  case (Inl e)
  with assms show ?thesis by (simp add: predict_fair_price_def)
next
  case (Inr r)
  with assms have "predict_fair_price_body lib self df = Inr fair"
    by (simp add: predict_fair_price_def)
  from predict_fair_price_body_result [OF this] show ?thesis by auto
qed

lemma predict_fair_price_total:
  "\<exists>fair. predict_fair_price lib self df = Inr fair \<and> length fair = length (df_price df)"
proof (cases "predict_fair_price_body lib self df")
  case (Inl e)
  then show ?thesis by (simp add: predict_fair_price_def)
next
  case (Inr r)
  then have r: "predict_fair_price lib self df = Inr r"
    by (simp add: predict_fair_price_def)
  from predict_fair_price_body_result [OF Inr] have "length r = length (df_price df)"
    by (auto simp: length_validate_predictions)
  with r show ?thesis by simp
qed

lemma predict_fair_price_fallback:
  "predict_fair_price_body lib self df = Inl e \<Longrightarrow>
   predict_fair_price lib self df = Inr (df_price df)"
  by (simp add: predict_fair_price_def)

lemma predict_fair_price_unloaded:
  "model self = None \<Longrightarrow> predict_fair_price lib self df = Inr (df_price df)"
  by (simp add: predict_fair_price_def predict_fair_price_body_def)


lemma calculate_fair_price_average:
  assumes "r ''price'' = Some (Some p)" "r ''zestimate'' = Some (Some z)"
  shows "calculate_fair_price r = Inr (Some ((p + z) / 2))"
  using assms
  by (simp add: calculate_fair_price_def calculate_fair_price_body_def row_get_def then_do_def)

text \<open>
  C1, as the code has it. For a record with a positive price, the fair price that
  \<open>predict_fair_price\<close> returns lies between half and one and a half times the price;
  on the model path the result is the clamp of the jittered predictions to that
  interval, so the clamp comes last. The fair price of the database builder is the mean
  of price and zestimate when both are there, and it lies in the interval exactly when
  the zestimate is between 0 and twice the price.
\<close>
theorem fair_price_bounds:
  "(predict_fair_price lib self df = Inr fair \<and> i < length (df_price df) \<and> 0 < df_price df ! i \<longrightarrow>
      0.5 * df_price df ! i \<le> fair ! i \<and> fair ! i \<le> 1.5 * df_price df ! i) \<and>
   (model self \<noteq> None \<and> predict_fair_price_body lib self df = Inr fair \<longrightarrow>
      (\<exists>jittered. length jittered = length (df_price df) \<and>
         fair = np_clip jittered (map (\<lambda>a. a * 0.5) (df_price df))
                  (map (\<lambda>a. a * 1.5) (df_price df)))) \<and>
   (r ''price'' = Some (Some p) \<and> r ''zestimate'' = Some (Some z) \<and> 0 < p \<longrightarrow>
      calculate_fair_price r = Inr (Some ((p + z) / 2)) \<and>
      ((0.5 * p \<le> (p + z) / 2 \<and> (p + z) / 2 \<le> 1.5 * p) \<longleftrightarrow> (0 \<le> z \<and> z \<le> 2 * p)))"
proof (intro conjI impI)
  assume a: "predict_fair_price lib self df = Inr fair \<and> i < length (df_price df) \<and>
             0 < df_price df ! i"
  from a predict_fair_price_result [of lib self df fair]
  consider "fair = df_price df"
    | jittered where "length jittered = length (df_price df)"
        "fair = validate_predictions jittered (df_price df)"
    by blast
  then have "0.5 * df_price df ! i \<le> fair ! i \<and> fair ! i \<le> 1.5 * df_price df ! i"
  proof cases
    case 1
    with a show ?thesis by simp
  next
    case 2
    with a validate_predictions_bounds [of jittered "df_price df" i] show ?thesis by simp
  qed
  then show "0.5 * df_price df ! i \<le> fair ! i" and "fair ! i \<le> 1.5 * df_price df ! i"
    by simp_all
next
  assume "model self \<noteq> None \<and> predict_fair_price_body lib self df = Inr fair"
  with predict_fair_price_body_result [of lib self df fair]
  obtain jittered where "length jittered = length (df_price df)"
    "fair = validate_predictions jittered (df_price df)"
    by blast
  then show "\<exists>jittered. length jittered = length (df_price df) \<and>
         fair = np_clip jittered (map (\<lambda>a. a * 0.5) (df_price df))
                  (map (\<lambda>a. a * 1.5) (df_price df))"
    using validate_predictions_clip [of jittered "df_price df"] by auto
next
  assume "r ''price'' = Some (Some p) \<and> r ''zestimate'' = Some (Some z) \<and> 0 < p"
  then show "calculate_fair_price r = Inr (Some ((p + z) / 2))"
    by (simp add: calculate_fair_price_average)
next
  show "(0.5 * p \<le> (p + z) / 2 \<and> (p + z) / 2 \<le> 1.5 * p) \<longleftrightarrow> (0 \<le> z \<and> z \<le> 2 * p)"
    by auto
qed

lemma sample_prediction:
  "predict_fair_price accepting_library sample_service sample_frame = Inr [450000, 675000]"
  by code_simp

lemma sample_frame_price: "df_price sample_frame = [300000, 450000]"
  by (simp add: sample_frame_def)

theorem fair_price_bounds_witness:
  "predict_fair_price accepting_library sample_service sample_frame = Inr [450000, 675000] \<and>
   (1::nat) < length (df_price sample_frame) \<and> 0 < df_price sample_frame ! 1 \<and>
   0.5 * df_price sample_frame ! 1 \<le> [450000, 675000] ! 1 \<and>
   [450000, 675000] ! 1 \<le> 1.5 * df_price sample_frame ! 1"
  using fair_price_bounds [of accepting_library sample_service sample_frame "[450000, 675000]" 1]
    sample_prediction
  by (simp add: sample_frame_price)

text \<open>
  C1 as stated fails for the database builder: a row with price 100 and zestimate 1000
  gets the fair price 550, above one and a half times the price.
\<close>
theorem create_db_fair_price_counterexample:
  "sample_row ''price'' = Some (Some 100) \<and>
   calculate_fair_price sample_row = Inr (Some 550) \<and>
   (1.5::real) * 100 < 550"
  by (simp add: sample_row_def calculate_fair_price_def calculate_fair_price_body_def
      row_get_def then_do_def)

lemma init_failed_load: "model (PredictionService_init (Inl e) ni ci) = None"
  by (simp add: PredictionService_init_def)

lemma stage_impute_numeric:
  "model self = Some m \<Longrightarrow>
   impute_numeric self (feature_names (select_numeric df)) df = Inl e \<Longrightarrow>
   predict_fair_price_body lib self df = Inl e"
  by (simp add: predict_fair_price_body_def then_do_def Let_def)

lemma stage_impute_categorical:
  "model self = Some m \<Longrightarrow>
   impute_numeric self (feature_names (select_numeric df)) df = Inr d1 \<Longrightarrow>
   impute_categorical self (feature_names (select_categorical df)) d1 = Inl e \<Longrightarrow>
   predict_fair_price_body lib self df = Inl e"
  by (simp add: predict_fair_price_body_def then_do_def Let_def)

lemma stage_convert:
  "model self = Some m \<Longrightarrow>
   impute_numeric self (feature_names (select_numeric df)) df = Inr d1 \<Longrightarrow>
   impute_categorical self (feature_names (select_categorical df)) d1 = Inr d2 \<Longrightarrow>
   convert_x_to_pca lib d2 (feature_names (select_numeric df))
     (feature_names (select_categorical df)) = Inl e \<Longrightarrow>
   predict_fair_price_body lib self df = Inl e"
  by (simp add: predict_fair_price_body_def then_do_def Let_def)

lemma stage_model:
  "model self = Some m \<Longrightarrow>
   impute_numeric self (feature_names (select_numeric df)) df = Inr d1 \<Longrightarrow>
   impute_categorical self (feature_names (select_categorical df)) d1 = Inr d2 \<Longrightarrow>
   convert_x_to_pca lib d2 (feature_names (select_numeric df))
     (feature_names (select_categorical df)) = Inr X \<Longrightarrow>
   m X = Inl e \<Longrightarrow>
   predict_fair_price_body lib self df = Inl e"
  by (simp add: predict_fair_price_body_def then_do_def Let_def)

lemma stage_length:
  "model self = Some m \<Longrightarrow>
   impute_numeric self (feature_names (select_numeric df)) df = Inr d1 \<Longrightarrow>
   impute_categorical self (feature_names (select_categorical df)) d1 = Inr d2 \<Longrightarrow>
   convert_x_to_pca lib d2 (feature_names (select_numeric df))
     (feature_names (select_categorical df)) = Inr X \<Longrightarrow>
   m X = Inr predictions \<Longrightarrow> length predictions \<noteq> length (df_price df) \<Longrightarrow>
   predict_fair_price_body lib self df = Inl ValueError"
  using impute_numeric_price [of self _ df d1] impute_categorical_price [of self _ d1 d2]
  by (simp add: predict_fair_price_body_def then_do_def Let_def)

text \<open>
  C3. \<open>predict_fair_price\<close> always returns one value per record and never raises. It
  returns the price column unchanged when the model failed to load (the constructor
  then leaves the model at \<open>None\<close>) and when any stage raises: the numeric or the
  categorical imputation, the reducer, the model, or the length check.
\<close>
theorem predict_fair_price_degrades:
  "(\<exists>fair. predict_fair_price lib self df = Inr fair \<and> length fair = length (df_price df)) \<and>
   model (PredictionService_init (Inl e0) num_imputer cat_imputer) = None \<and>
   (model self = None \<longrightarrow> predict_fair_price lib self df = Inr (df_price df)) \<and>
   (predict_fair_price_body lib self df = Inl e \<longrightarrow>
      predict_fair_price lib self df = Inr (df_price df)) \<and>
   (model self = Some m \<and>
    (impute_numeric self (feature_names (select_numeric df)) df = Inl e \<or>
     impute_numeric self (feature_names (select_numeric df)) df = Inr d1 \<and>
     (impute_categorical self (feature_names (select_categorical df)) d1 = Inl e \<or>
      impute_categorical self (feature_names (select_categorical df)) d1 = Inr d2 \<and>
      (convert_x_to_pca lib d2 (feature_names (select_numeric df))
         (feature_names (select_categorical df)) = Inl e \<or>
       convert_x_to_pca lib d2 (feature_names (select_numeric df))
         (feature_names (select_categorical df)) = Inr X \<and>
       (m X = Inl e \<or>
        m X = Inr predictions \<and> length predictions \<noteq> length (df_price df))))) \<longrightarrow>
      predict_fair_price lib self df = Inr (df_price df))"
proof (intro conjI impI)
  show "\<exists>fair. predict_fair_price lib self df = Inr fair \<and> length fair = length (df_price df)"
    by (rule predict_fair_price_total)
next
  show "model (PredictionService_init (Inl e0) num_imputer cat_imputer) = None"
    by (rule init_failed_load)
next
  assume "model self = None"
  then show "predict_fair_price lib self df = Inr (df_price df)"
    by (rule predict_fair_price_unloaded)
next
  assume "predict_fair_price_body lib self df = Inl e"
  then show "predict_fair_price lib self df = Inr (df_price df)"
    by (rule predict_fair_price_fallback)
next
  assume a: "model self = Some m \<and>
    (impute_numeric self (feature_names (select_numeric df)) df = Inl e \<or>
     impute_numeric self (feature_names (select_numeric df)) df = Inr d1 \<and>
     (impute_categorical self (feature_names (select_categorical df)) d1 = Inl e \<or>
      impute_categorical self (feature_names (select_categorical df)) d1 = Inr d2 \<and>
      (convert_x_to_pca lib d2 (feature_names (select_numeric df))
         (feature_names (select_categorical df)) = Inl e \<or>
       convert_x_to_pca lib d2 (feature_names (select_numeric df))
         (feature_names (select_categorical df)) = Inr X \<and>
       (m X = Inl e \<or>
        m X = Inr predictions \<and> length predictions \<noteq> length (df_price df)))))"
  then have "\<exists>e'. predict_fair_price_body lib self df = Inl e'"
    using stage_impute_numeric [of self m df e lib]
      stage_impute_categorical [of self m df d1 e lib]
      stage_convert [of self m df d1 d2 lib e]
      stage_model [of self m df d1 d2 lib X e]
      stage_length [of self m df d1 d2 lib X predictions]
    by blast
  then show "predict_fair_price lib self df = Inr (df_price df)"
    using predict_fair_price_fallback by blast
qed

lemma unloaded_model: "model unloaded_service = None"
  by (simp add: unloaded_service_def PredictionService_init_def)

lemma narrow_pipeline_raises:
  "convert_x_to_pca checking_library sample_frame [''livingArea''] [''city''] = Inl ValueError"
  by code_simp

theorem predict_fair_price_degrades_witness:
  "model unloaded_service = None \<and>
   predict_fair_price checking_library unloaded_service sample_frame = Inr [300000, 450000]"
  using predict_fair_price_degrades [of checking_library unloaded_service sample_frame]
    unloaded_model
  by (simp add: sample_frame_price)


lemma convert_x_to_pca_error:
  assumes "convert_x_to_pca lib x numeric_features categorical_features = Inl e"
  shows "e = KeyError \<or> e = TypeError \<or>
         (\<exists>X. pipeline_fit_transform lib X numeric_features categorical_features = Inl e)"
proof (cases "fill_numeric numeric_features x")
  case (Inl e1)
  with assms have "e = e1" by (simp add: convert_x_to_pca_def then_do_def)
  with Inl fill_numeric_error show ?thesis by blast
next
  case X1: (Inr X1)
  show ?thesis
  proof (cases "fill_categorical lib categorical_features X1")
    case (Inl e2)
    with assms X1 have "e = e2" by (simp add: convert_x_to_pca_def then_do_def)
    with Inl fill_categorical_error show ?thesis by blast
  next
    case (Inr X2)
    with assms X1
    have "pipeline_fit_transform lib X2 numeric_features categorical_features = Inl e"
      by (simp add: convert_x_to_pca_def then_do_def)
    then show ?thesis by blast
  qed
qed

text \<open>
  C4, as the code has it. The reducer checks no width: once the missing values are
  filled its result is the library pipeline's result on the filled frame. The only
  errors it raises are the KeyError and TypeError of the pandas statements that fill the
  frame, and whatever the pipeline raised. The predictor catches that error and returns
  the prices.
\<close>
theorem reducer_defers_to_library:
  "(fill_numeric numeric_features x = Inr X1 \<and>
    fill_categorical lib categorical_features X1 = Inr X2 \<longrightarrow>
      convert_x_to_pca lib x numeric_features categorical_features =
        pipeline_fit_transform lib X2 numeric_features categorical_features) \<and>
   (convert_x_to_pca lib x numeric_features categorical_features = Inl e \<longrightarrow>
      e = KeyError \<or> e = TypeError \<or>
      (\<exists>X. pipeline_fit_transform lib X numeric_features categorical_features = Inl e)) \<and>
   (model self = Some m \<and>
    impute_numeric self (feature_names (select_numeric df)) df = Inr d1 \<and>
    impute_categorical self (feature_names (select_categorical df)) d1 = Inr d2 \<and>
    convert_x_to_pca lib d2 (feature_names (select_numeric df))
      (feature_names (select_categorical df)) = Inl e' \<longrightarrow>
      predict_fair_price lib self df = Inr (df_price df))"
proof (intro conjI impI)
  assume "fill_numeric numeric_features x = Inr X1 \<and>
          fill_categorical lib categorical_features X1 = Inr X2"
  then show "convert_x_to_pca lib x numeric_features categorical_features =
        pipeline_fit_transform lib X2 numeric_features categorical_features"
    by (simp add: convert_x_to_pca_def then_do_def)
next
  assume "convert_x_to_pca lib x numeric_features categorical_features = Inl e"
  then show "e = KeyError \<or> e = TypeError \<or>
      (\<exists>X. pipeline_fit_transform lib X numeric_features categorical_features = Inl e)"
    by (rule convert_x_to_pca_error)
next
  assume "model self = Some m \<and>
    impute_numeric self (feature_names (select_numeric df)) df = Inr d1 \<and>
    impute_categorical self (feature_names (select_categorical df)) d1 = Inr d2 \<and>
    convert_x_to_pca lib d2 (feature_names (select_numeric df))
      (feature_names (select_categorical df)) = Inl e'"
  then have "predict_fair_price_body lib self df = Inl e'"
    using stage_convert [of self m df d1 d2 lib e'] by blast
  then show "predict_fair_price lib self df = Inr (df_price df)"
    by (rule predict_fair_price_fallback)
qed

lemma narrow_prediction:
  "predict_fair_price checking_library sample_service sample_frame = Inr [300000, 450000]"
  by code_simp

lemma category_column_raises:
  "convert_x_to_pca checking_library category_frame [''livingArea''] [''homeType''] = Inl TypeError"
  by code_simp

lemma category_prediction:
  "predict_fair_price checking_library sample_service category_frame = Inr [300000, 450000]"
  by code_simp

theorem reducer_defers_to_library_witness:
  "convert_x_to_pca checking_library sample_frame [''livingArea''] [''city''] = Inl ValueError \<and>
   (\<exists>X. pipeline_fit_transform checking_library X [''livingArea''] [''city''] = Inl ValueError) \<and>
   predict_fair_price checking_library sample_service sample_frame = Inr (df_price sample_frame) \<and>
   convert_x_to_pca checking_library category_frame [''livingArea''] [''homeType''] = Inl TypeError \<and>
   predict_fair_price checking_library sample_service category_frame =
     Inr (df_price category_frame)"
  using reducer_defers_to_library
    [where lib = checking_library and x = sample_frame and numeric_features = "[''livingArea'']"
       and categorical_features = "[''city'']" and e = ValueError]
    narrow_pipeline_raises narrow_prediction category_column_raises category_prediction
  by (simp add: sample_frame_price category_frame_def)

text \<open>
  C4 as stated fails: on a frame of encoded width 3, with a library that checks the
  shape as scikit-learn does, the reducer raises the library's ValueError and no
  InsufficientFeaturesError.
\<close>
theorem insufficient_features_counterexample:
  "encoded_width sample_frame [''livingArea''] [''city''] = 3 \<and>
   convert_x_to_pca checking_library sample_frame [''livingArea''] [''city''] = Inl ValueError \<and>
   convert_x_to_pca checking_library sample_frame [''livingArea''] [''city''] \<noteq>
     Inl (OtherError ''InsufficientFeaturesError'')"
  using narrow_pipeline_raises
  by (simp add: encoded_width_def sample_frame_def)

end
